theory Spec2Isabelle
  imports Main "HOL-Library.Sublist"
begin

section \<open>Python values, console and exceptions\<close>

text \<open>
  The program is one Python module, \<^verbatim>\<open>shelf_track.py\<close>, that keeps two SQLite tables
  and talks to the operator through \<^verbatim>\<open>input\<close> and \<^verbatim>\<open>print\<close>.

  A Python \<^verbatim>\<open>str\<close> is a sequence of code points. The model keeps the code points
  U+0000 to U+00FF, so that a \<^verbatim>\<open>str\<close> is a \<^typ>\<open>string\<close> and one \<^typ>\<open>char\<close> is one
  code point. A Python \<^verbatim>\<open>int\<close> is unbounded: \<^typ>\<open>int\<close>.

  The exceptions that the modelled statements can raise. All of them are subclasses
  of \<^verbatim>\<open>Exception\<close>, so a handler \<^verbatim>\<open>except Exception as e\<close> catches each of them.
  \<^item> \<open>EOFError\<close>: \<^verbatim>\<open>input()\<close> at the end of standard input;
  \<^item> \<open>ValueError\<close>: \<^verbatim>\<open>int(s)\<close> on a string that is no integer literal;
  \<^item> \<open>OverflowError\<close>: \<^verbatim>\<open>sqlite3\<close> binding a Python int outside the signed 64-bit
    range of an SQLite INTEGER;
  \<^item> \<open>IntegrityError\<close>: \<^verbatim>\<open>sqlite3.IntegrityError\<close>, a PRIMARY KEY collision;
  \<^item> \<open>OperationalError\<close>: \<^verbatim>\<open>sqlite3.OperationalError\<close> with the engine's message.
\<close>

datatype exn = EOFError | ValueError | OverflowError | IntegrityError | OperationalError string

subsection \<open>\<^verbatim>\<open>str.strip\<close> and \<^verbatim>\<open>int\<close>\<close>

text \<open>
  \<^verbatim>\<open>str.strip()\<close> removes the leading and trailing characters for which
  \<^verbatim>\<open>str.isspace\<close> holds; below U+0100 these are the twelve code points of
  \<open>str_isspace\<close>.
\<close>

definition str_isspace :: "char \<Rightarrow> bool" where
  "str_isspace c = ((of_char c :: nat) \<in> {9, 10, 11, 12, 13, 28, 29, 30, 31, 32, 133, 160})"

definition strip_by :: "(char \<Rightarrow> bool) \<Rightarrow> string \<Rightarrow> string" where
  "strip_by P s = rev (dropWhile P (rev (dropWhile P s)))"

definition strip :: "string \<Rightarrow> string" where
  "strip s = strip_by str_isspace s"

text \<open>
  \<^verbatim>\<open>int(s)\<close> for a \<^verbatim>\<open>str\<close>, base 10, as CPython 3.11 does it: surrounding white space
  is skipped (the ASCII white space and, of the code points from U+007F on, the Unicode
  spaces U+0085 and U+00A0; the separators U+001C to U+001F are not skipped here, although
  \<^verbatim>\<open>strip\<close> removes them), then an optional sign, then decimal digits in which single
  underscores may stand between two digits. More than 4300 digits are refused (the
  default \<^verbatim>\<open>sys.get_int_max_str_digits()\<close>). \<open>None\<close> stands for the raised
  \<^verbatim>\<open>ValueError\<close>.
\<close>

definition int_isspace :: "char \<Rightarrow> bool" where
  "int_isspace c = ((of_char c :: nat) \<in> {9, 10, 11, 12, 13, 32, 133, 160})"

definition is_digit :: "char \<Rightarrow> bool" where
  "is_digit c = (48 \<le> (of_char c :: nat) \<and> (of_char c :: nat) \<le> 57)"

fun digits_ok :: "string \<Rightarrow> bool" where
  "digits_ok [] = False"
| "digits_ok [c] = is_digit c"
| "digits_ok (c # d # cs) =
     (is_digit c \<and> (if d = CHR ''_'' then digits_ok cs else digits_ok (d # cs)))"

definition digits_value :: "string \<Rightarrow> int" where
  "digits_value ds = foldl (\<lambda>a c. 10 * a + int (of_char c - 48)) 0 ds"

definition py_int :: "string \<Rightarrow> int option" where
  "py_int s =
     (let t = strip_by int_isspace s;
          neg = (case t of [] \<Rightarrow> False | c # r \<Rightarrow> c = CHR ''-'');
          body = (case t of [] \<Rightarrow> [] | c # r \<Rightarrow> if c = CHR ''-'' \<or> c = CHR ''+'' then r else t);
          ds = filter is_digit body
      in if digits_ok body \<and> length ds \<le> 4300
         then Some (if neg then - digits_value ds else digits_value ds)
         else None)"


section \<open>The database\<close>

text \<open>
  The file \<^verbatim>\<open>ebookstore.db\<close> holds at most the two tables of \<^verbatim>\<open>create_tables\<close>.
  A table that has not been created is \<open>None\<close>. A row is a record with the columns of
  the \<^verbatim>\<open>CREATE TABLE\<close> statement; a table is the list of its rows.

  The column \<^verbatim>\<open>id\<close> of \<^verbatim>\<open>book\<close> is \<^verbatim>\<open>INTEGER PRIMARY KEY\<close>, that is the rowid: the engine
  keeps the rows of \<^verbatim>\<open>book\<close> in ascending order of id and scans them in that order, so
  the list of \<^verbatim>\<open>book\<close> is kept in that order and the statements that read \<^verbatim>\<open>book\<close>
  give their rows in the order of the list. The rows of \<^verbatim>\<open>author\<close> are reached through
  their id only, one row at most for an id, so their order shows nowhere; the list of
  \<^verbatim>\<open>author\<close> has them in the order of insertion.
\<close>

record author =
  a_id :: int
  a_name :: string
  a_country :: string

record book =
  b_id :: int
  b_title :: string
  b_authorID :: int
  b_qty :: int

record database =
  author_tbl :: "author list option"
  book_tbl :: "book list option"

text \<open>
  An SQLite INTEGER is a signed 64-bit integer. The \<^verbatim>\<open>sqlite3\<close> module raises
  \<^verbatim>\<open>OverflowError\<close> when a statement parameter is a Python int outside that range.
\<close>

definition sqlite_int :: "int \<Rightarrow> bool" where
  "sqlite_int n = (- (2 ^ 63) \<le> n \<and> n < 2 ^ 63)"

definition no_such_table :: "string \<Rightarrow> exn" where
  "no_such_table t = OperationalError (''no such table: '' @ t)"

subsection \<open>The statements of \<^verbatim>\<open>create_tables\<close> and \<^verbatim>\<open>populate_tables\<close>\<close>

text \<open>
  Each SQL statement of the source is a function on the database that returns the
  raised exception or the result. A statement is prepared (its tables must exist), then
  its parameters are bound (integers must fit), then it runs (constraints are checked).
  Both columns \<^verbatim>\<open>id\<close> are \<^verbatim>\<open>INTEGER PRIMARY KEY\<close>: a second row with an id already in
  the table is refused. The source never turns foreign key enforcement on, so
  \<^verbatim>\<open>authorID\<close> is not checked against \<^verbatim>\<open>author\<close>.
\<close>

definition create_table_author :: "database \<Rightarrow> exn + database" where
  "create_table_author d =
     Inr (case author_tbl d of None \<Rightarrow> d\<lparr>author_tbl := Some []\<rparr> | Some rows \<Rightarrow> d)"

definition create_table_book :: "database \<Rightarrow> exn + database" where
  "create_table_book d =
     Inr (case book_tbl d of None \<Rightarrow> d\<lparr>book_tbl := Some []\<rparr> | Some rows \<Rightarrow> d)"

definition count_author :: "database \<Rightarrow> exn + nat" where
  "count_author d =
     (case author_tbl d of None \<Rightarrow> Inl (no_such_table ''author'')
      | Some rows \<Rightarrow> Inr (length rows))"

definition count_book :: "database \<Rightarrow> exn + nat" where
  "count_book d =
     (case book_tbl d of None \<Rightarrow> Inl (no_such_table ''book'')
      | Some rows \<Rightarrow> Inr (length rows))"

definition insert_author :: "author \<Rightarrow> database \<Rightarrow> exn + database" where
  "insert_author row d =
     (case author_tbl d of None \<Rightarrow> Inl (no_such_table ''author'')
      | Some rows \<Rightarrow>
          if \<not> sqlite_int (a_id row) then Inl OverflowError
          else if a_id row \<in> set (map a_id rows) then Inl IntegrityError
          else Inr (d\<lparr>author_tbl := Some (rows @ [row])\<rparr>))"

definition insert_book :: "book \<Rightarrow> database \<Rightarrow> exn + database" where
  "insert_book row d =
     (case book_tbl d of None \<Rightarrow> Inl (no_such_table ''book'')
      | Some rows \<Rightarrow>
          if \<not> (sqlite_int (b_id row) \<and> sqlite_int (b_authorID row) \<and> sqlite_int (b_qty row))
          then Inl OverflowError
          else if b_id row \<in> set (map b_id rows) then Inl IntegrityError
          else Inr (d\<lparr>book_tbl := Some (insort_key b_id row rows)\<rparr>))"

text \<open>\<^verbatim>\<open>cursor.executemany\<close> runs the statement once for each row and stops at the first exception.\<close>

fun executemany :: "('r \<Rightarrow> database \<Rightarrow> exn + database) \<Rightarrow> 'r list \<Rightarrow> database \<Rightarrow> exn + database" where
  "executemany stmt [] d = Inr d"
| "executemany stmt (r # rs) d =
     (case stmt r d of Inl e \<Rightarrow> Inl e | Inr d' \<Rightarrow> executemany stmt rs d')"

definition authors :: "author list" where
  "authors =
     [\<lparr>a_id = 1290, a_name = ''Charles Dickens'', a_country = ''England''\<rparr>,
      \<lparr>a_id = 8937, a_name = ''J.K. Rowling'', a_country = ''England''\<rparr>,
      \<lparr>a_id = 2356, a_name = ''C.S. Lewis'', a_country = ''Ireland''\<rparr>,
      \<lparr>a_id = 6380, a_name = ''J.R.R. Tolkien'', a_country = ''South Africa''\<rparr>,
      \<lparr>a_id = 5620, a_name = ''Lewis Carroll'', a_country = ''England''\<rparr>]"

definition books :: "book list" where
  "books =
     [\<lparr>b_id = 3001, b_title = ''A Tale of Two Cities'', b_authorID = 1290, b_qty = 30\<rparr>,
      \<lparr>b_id = 3002, b_title = ''Harry Potter and the Philosopher'' @ [CHR 0x27] @ ''s Stone'',
         b_authorID = 8937, b_qty = 40\<rparr>,
      \<lparr>b_id = 3003, b_title = ''The Lion, the Witch and the Wardrobe'', b_authorID = 2356, b_qty = 25\<rparr>,
      \<lparr>b_id = 3004, b_title = ''The Lord of the Rings'', b_authorID = 6380, b_qty = 37\<rparr>,
      \<lparr>b_id = 3005, b_title = ''Alice'' @ [CHR 0x27] @ ''s Adventures in Wonderland'',
         b_authorID = 5620, b_qty = 12\<rparr>]"

subsection \<open>The statements of the five operations\<close>

definition update_book_qty :: "int \<Rightarrow> int \<Rightarrow> database \<Rightarrow> exn + database" where
  "update_book_qty qty book_id d =
     (case book_tbl d of None \<Rightarrow> Inl (no_such_table ''book'')
      | Some rows \<Rightarrow>
          if \<not> (sqlite_int qty \<and> sqlite_int book_id) then Inl OverflowError
          else Inr (d\<lparr>book_tbl :=
                 Some (map (\<lambda>b. if b_id b = book_id then b\<lparr>b_qty := qty\<rparr> else b) rows)\<rparr>))"

definition update_book_title :: "string \<Rightarrow> int \<Rightarrow> database \<Rightarrow> exn + database" where
  "update_book_title title book_id d =
     (case book_tbl d of None \<Rightarrow> Inl (no_such_table ''book'')
      | Some rows \<Rightarrow>
          if \<not> sqlite_int book_id then Inl OverflowError
          else Inr (d\<lparr>book_tbl :=
                 Some (map (\<lambda>b. if b_id b = book_id then b\<lparr>b_title := title\<rparr> else b) rows)\<rparr>))"

definition update_book_authorID :: "int \<Rightarrow> int \<Rightarrow> database \<Rightarrow> exn + database" where
  "update_book_authorID authorID book_id d =
     (case book_tbl d of None \<Rightarrow> Inl (no_such_table ''book'')
      | Some rows \<Rightarrow>
          if \<not> (sqlite_int authorID \<and> sqlite_int book_id) then Inl OverflowError
          else Inr (d\<lparr>book_tbl :=
                 Some (map (\<lambda>b. if b_id b = book_id then b\<lparr>b_authorID := authorID\<rparr> else b) rows)\<rparr>))"

text \<open>
  \<^verbatim>\<open>SELECT a.id, a.name, a.country FROM author a JOIN book b ON a.id = b.authorID WHERE b.id = ?\<close>
\<close>

definition select_author_of_book :: "int \<Rightarrow> database \<Rightarrow> exn + author list" where
  "select_author_of_book book_id d =
     (case author_tbl d of None \<Rightarrow> Inl (no_such_table ''author'')
      | Some arows \<Rightarrow>
         (case book_tbl d of None \<Rightarrow> Inl (no_such_table ''book'')
          | Some brows \<Rightarrow>
              if \<not> sqlite_int book_id then Inl OverflowError
              else Inr (concat (map (\<lambda>a. map (\<lambda>b. a)
                     (filter (\<lambda>b. a_id a = b_authorID b \<and> b_id b = book_id) brows)) arows))))"

definition fetchone :: "'r list \<Rightarrow> 'r option" where
  "fetchone rows = (case rows of [] \<Rightarrow> None | r # rs \<Rightarrow> Some r)"

definition update_author :: "string \<Rightarrow> string \<Rightarrow> int \<Rightarrow> database \<Rightarrow> exn + database" where
  "update_author new_name new_country author_id d =
     (case author_tbl d of None \<Rightarrow> Inl (no_such_table ''author'')
      | Some rows \<Rightarrow>
          if \<not> sqlite_int author_id then Inl OverflowError
          else Inr (d\<lparr>author_tbl :=
                 Some (map (\<lambda>a. if a_id a = author_id
                                 then a\<lparr>a_name := new_name, a_country := new_country\<rparr> else a) rows)\<rparr>))"

definition delete_book_row :: "int \<Rightarrow> database \<Rightarrow> exn + database" where
  "delete_book_row book_id d =
     (case book_tbl d of None \<Rightarrow> Inl (no_such_table ''book'')
      | Some rows \<Rightarrow>
          if \<not> sqlite_int book_id then Inl OverflowError
          else Inr (d\<lparr>book_tbl := Some (filter (\<lambda>b. b_id b \<noteq> book_id) rows)\<rparr>))"

subsection \<open>The LIKE operator\<close>

text \<open>
  SQLite's built-in \<^verbatim>\<open>LIKE\<close> without \<^verbatim>\<open>ESCAPE\<close>: in the pattern \<^verbatim>\<open>%\<close> stands for any
  sequence of characters and \<^verbatim>\<open>_\<close> for any one character; every other character stands
  for itself, where the letters A to Z and a to z of ASCII are compared without regard to
  case and all other characters exactly. The engine reads pattern and text as C strings,
  so each ends before its first U+0000. A pattern of more than 50000 bytes of UTF-8
  (\<^verbatim>\<open>SQLITE_MAX_LIKE_PATTERN_LENGTH\<close>) makes the operator fail with
  \<^verbatim>\<open>LIKE or GLOB pattern too complex\<close>; a code point from U+0080 to U+00FF takes two bytes.
\<close>

definition ascii_lower :: "char \<Rightarrow> char" where
  "ascii_lower c =
     (if 65 \<le> (of_char c :: nat) \<and> (of_char c :: nat) \<le> 90
      then char_of ((of_char c :: nat) + 32) else c)"

fun like_match :: "string \<Rightarrow> string \<Rightarrow> bool" where
  "like_match [] t = (t = [])"
| "like_match (p # ps) [] = (p = CHR ''%'' \<and> like_match ps [])"
| "like_match (p # ps) (c # cs) =
     (if p = CHR ''%'' then like_match ps (c # cs) \<or> like_match (p # ps) cs
      else if p = CHR ''_'' then like_match ps cs
      else ascii_lower p = ascii_lower c \<and> like_match ps cs)"

definition c_str :: "string \<Rightarrow> string" where
  "c_str s = takeWhile (\<lambda>c. c \<noteq> CHR 0x00) s"

definition utf8_length :: "string \<Rightarrow> nat" where
  "utf8_length s = sum_list (map (\<lambda>c. if (of_char c :: nat) < 128 then 1 else 2) s)"

definition sql_like :: "string \<Rightarrow> string \<Rightarrow> exn + bool" where
  "sql_like txt pat =
     (if utf8_length pat > 50000 then Inl (OperationalError ''LIKE or GLOB pattern too complex'')
      else Inr (like_match (c_str pat) (c_str txt)))"

text \<open>
  \<^verbatim>\<open>SELECT * FROM book WHERE title LIKE ?\<close>: the operator is evaluated once for each row
  of the table, so an empty table never evaluates it.
\<close>

fun where_title_like :: "string \<Rightarrow> book list \<Rightarrow> exn + book list" where
  "where_title_like pat [] = Inr []"
| "where_title_like pat (b # bs) =
     (case sql_like (b_title b) pat of Inl e \<Rightarrow> Inl e
      | Inr m \<Rightarrow>
         (case where_title_like pat bs of Inl e \<Rightarrow> Inl e
          | Inr rs \<Rightarrow> Inr (if m then b # rs else rs)))"

definition select_books_like :: "string \<Rightarrow> database \<Rightarrow> exn + book list" where
  "select_books_like pat d =
     (case book_tbl d of None \<Rightarrow> Inl (no_such_table ''book'')
      | Some rows \<Rightarrow> where_title_like pat rows)"

text \<open>
  \<^verbatim>\<open>SELECT b.title, a.name, a.country FROM book b INNER JOIN author a ON b.authorID = a.id\<close>
\<close>

definition select_book_details :: "database \<Rightarrow> exn + (string \<times> string \<times> string) list" where
  "select_book_details d =
     (case book_tbl d of None \<Rightarrow> Inl (no_such_table ''book'')
      | Some brows \<Rightarrow>
         (case author_tbl d of None \<Rightarrow> Inl (no_such_table ''author'')
          | Some arows \<Rightarrow>
              Inr (concat (map (\<lambda>b. map (\<lambda>a. (b_title b, a_name a, a_country a))
                     (filter (\<lambda>a. b_authorID b = a_id a) arows)) brows))))"


section \<open>The console and the connection\<close>

text \<open>
  One constructor for each \<^verbatim>\<open>print\<close> call of the source, with the values that the
  printed text is formatted from; the fixed lines of a menu are \<open>Text\<close>. The prompt that
  \<^verbatim>\<open>input\<close> writes is not recorded.
\<close>

datatype msg =
    Text string
  | BookAdded string
  | ErrorAddingBook exn
  | CurrentAuthor string string
  | AuthorNotFound
  | InvalidChoice
  | UpdatedSuccessfully
  | ErrorUpdatingBook exn
  | BookDeleted int
  | ErrorDeletingBook exn
  | SearchResults
  | SearchRow int string int int
  | NoBooksFound
  | BookDetails
  | BookDetail string string string
  | Goodbye
  | InvalidSelection

text \<open>
  The state that a call can read and change: the lines still to be read from standard
  input, the messages printed so far, and the database file.
\<close>

record world =
  stdin :: "string list"
  stdout :: "msg list"
  db :: database

type_synonym 'a io = "world \<Rightarrow> (exn + 'a) \<times> world"

text \<open>Sequencing: an exception skips the rest and keeps the state reached.\<close>

definition seq :: "(exn + 'a) \<times> world \<Rightarrow> ('a \<Rightarrow> 'b io) \<Rightarrow> (exn + 'b) \<times> world" where
  "seq r f = (case r of (Inl e, w) \<Rightarrow> (Inl e, w) | (Inr x, w) \<Rightarrow> f x w)"

definition input :: "string io" where
  "input w = (case stdin w of [] \<Rightarrow> (Inl EOFError, w) | l # ls \<Rightarrow> (Inr l, w\<lparr>stdin := ls\<rparr>))"

definition int_input :: "int io" where
  "int_input w =
     seq (input w) (\<lambda>s w'. case py_int s of None \<Rightarrow> (Inl ValueError, w') | Some n \<Rightarrow> (Inr n, w'))"

definition print :: "msg \<Rightarrow> world \<Rightarrow> world" where
  "print m w = w\<lparr>stdout := stdout w @ [m]\<rparr>"

definition print_each :: "msg list \<Rightarrow> world \<Rightarrow> world" where
  "print_each ms w = foldl (\<lambda>w' m. print m w') w ms"

text \<open>
  \<^verbatim>\<open>cursor.execute\<close> of a statement that changes the database, and of a query.
  \<^verbatim>\<open>with connect_db() as conn\<close> commits when its block ends normally and rolls back when
  an exception leaves it. Every block of the source ends with \<^verbatim>\<open>conn.commit()\<close> followed
  at most by a \<^verbatim>\<open>print\<close>, so the changes of a block that ends normally are kept and
  those of a block left by an exception are undone.
\<close>

definition execute :: "(database \<Rightarrow> exn + database) \<Rightarrow> unit io" where
  "execute stmt w = (case stmt (db w) of Inl e \<Rightarrow> (Inl e, w) | Inr d \<Rightarrow> (Inr (), w\<lparr>db := d\<rparr>))"

definition query :: "(database \<Rightarrow> exn + 'r) \<Rightarrow> 'r io" where
  "query stmt w = (case stmt (db w) of Inl e \<Rightarrow> (Inl e, w) | Inr r \<Rightarrow> (Inr r, w))"

definition with_connection :: "'a io \<Rightarrow> 'a io" where
  "with_connection body w =
     (case body w of (Inl e, w') \<Rightarrow> (Inl e, w'\<lparr>db := db w\<rparr>) | (Inr x, w') \<Rightarrow> (Inr x, w'))"

section \<open>Storage initialisation\<close>

definition create_tables :: "unit io" where
  "create_tables =
     with_connection (\<lambda>w0.
       seq (execute create_table_author w0) (\<lambda>_ w1.
       seq (execute create_table_book w1) (\<lambda>_ w2.
       (Inr (), w2))))"

definition populate_tables :: "unit io" where
  "populate_tables =
     with_connection (\<lambda>w0.
       seq (query count_author w0) (\<lambda>n w1.
       seq (if n = 0 then execute (executemany insert_author authors) w1 else (Inr (), w1)) (\<lambda>_ w2.
       seq (query count_book w2) (\<lambda>m w3.
       seq (if m = 0 then execute (executemany insert_book books) w3 else (Inr (), w3)) (\<lambda>_ w4.
       (Inr (), w4))))))"

section \<open>The five operations\<close>

definition enter_book_try :: "unit io" where
  "enter_book_try w0 =
     seq (int_input w0) (\<lambda>id w1.
     seq (input w1) (\<lambda>s w2.
     let title = strip s in
     seq (int_input w2) (\<lambda>authorID w3.
     seq (int_input w3) (\<lambda>qty w4.
     with_connection (\<lambda>w5.
       seq (execute (insert_book \<lparr>b_id = id, b_title = title, b_authorID = authorID, b_qty = qty\<rparr>) w5)
         (\<lambda>_ w6. (Inr (), print (BookAdded title) w6))) w4))))"

definition enter_book :: "unit io" where
  "enter_book w =
     (case enter_book_try w of
        (Inl e, w') \<Rightarrow> (Inr (), print (ErrorAddingBook e) w')
      | (Inr u, w') \<Rightarrow> (Inr u, w'))"

text \<open>The branch of choice 4 in \<^verbatim>\<open>update_book\<close>.\<close>

definition update_author_details :: "int \<Rightarrow> unit io" where
  "update_author_details book_id w0 =
     seq (query (select_author_of_book book_id) w0) (\<lambda>rows w1.
     case fetchone rows of
       Some author \<Rightarrow>
         seq (input (print (CurrentAuthor (a_name author) (a_country author)) w1)) (\<lambda>s1 w2.
         let new_name = (if strip s1 = [] then a_name author else strip s1) in
         seq (input w2) (\<lambda>s2 w3.
         let new_country = (if strip s2 = [] then a_country author else strip s2) in
         execute (update_author new_name new_country (a_id author)) w3))
     | None \<Rightarrow> (Inr (), print AuthorNotFound w1))"

definition update_options :: "msg list" where
  "update_options =
     [Text ''Update Options:'', Text ''1. Quantity'', Text ''2. Title'', Text ''3. Author ID'',
      Text ''4. Author Name/Country'']"

text \<open>The block under \<^verbatim>\<open>with connect_db() as conn\<close> in \<^verbatim>\<open>update_book\<close>.\<close>

definition update_book_block :: "int \<Rightarrow> string \<Rightarrow> unit io" where
  "update_book_block book_id choice w0 =
     seq (if choice = ''1'' then
            seq (int_input w0) (\<lambda>qty w1. execute (update_book_qty qty book_id) w1)
          else if choice = ''2'' then
            seq (input w0) (\<lambda>title w1. execute (update_book_title title book_id) w1)
          else if choice = ''3'' then
            seq (int_input w0) (\<lambda>authorID w1. execute (update_book_authorID authorID book_id) w1)
          else if choice = ''4'' then update_author_details book_id w0
          else (Inr (), print InvalidChoice w0))
       (\<lambda>_ w2. (Inr (), print UpdatedSuccessfully w2))"

definition update_book_try :: "unit io" where
  "update_book_try w0 =
     seq (int_input w0) (\<lambda>book_id w1.
     seq (input (print_each update_options w1)) (\<lambda>choice w2.
     with_connection (update_book_block book_id choice) w2))"

definition update_book :: "unit io" where
  "update_book w =
     (case update_book_try w of
        (Inl e, w') \<Rightarrow> (Inr (), print (ErrorUpdatingBook e) w')
      | (Inr u, w') \<Rightarrow> (Inr u, w'))"

definition delete_book_try :: "unit io" where
  "delete_book_try w0 =
     seq (int_input w0) (\<lambda>book_id w1.
     with_connection (\<lambda>w2.
       seq (execute (delete_book_row book_id) w2)
         (\<lambda>_ w3. (Inr (), print (BookDeleted book_id) w3))) w1)"

definition delete_book :: "unit io" where
  "delete_book w =
     (case delete_book_try w of
        (Inl e, w') \<Rightarrow> (Inr (), print (ErrorDeletingBook e) w')
      | (Inr u, w') \<Rightarrow> (Inr u, w'))"

text \<open>\<^verbatim>\<open>search_books\<close> and \<^verbatim>\<open>view_all_books\<close> have no \<^verbatim>\<open>try\<close> statement.\<close>

definition search_row :: "book \<Rightarrow> msg" where
  "search_row row = SearchRow (b_id row) (b_title row) (b_authorID row) (b_qty row)"

definition search_books :: "unit io" where
  "search_books w0 =
     seq (input w0) (\<lambda>s w1.
     let keyword = strip s in
     with_connection (\<lambda>w2.
       seq (query (select_books_like (''%'' @ keyword @ ''%'')) w2) (\<lambda>results w3.
       if results \<noteq> [] then
         (Inr (), print_each (map search_row results) (print SearchResults w3))
       else (Inr (), print NoBooksFound w3))) w1)"

definition view_all_books :: "unit io" where
  "view_all_books =
     with_connection (\<lambda>w0.
       seq (query select_book_details w0) (\<lambda>results w1.
       (Inr (), print_each
                  (map (\<lambda>(title, name, country). BookDetail title name country) results)
                  (print BookDetails w1))))"


section \<open>The menu loop\<close>

text \<open>
  The loop of \<^verbatim>\<open>main\<close>: print the menu, read a choice, run the operation, and start again
  until the choice is \<^verbatim>\<open>0\<close>. An exception that an operation lets pass, or that the
  \<^verbatim>\<open>input\<close> call of the loop raises, ends the loop and the program. Every round reads at
  least one line and no call gives a line back, so the loop ends on every finite input.
\<close>

definition menu :: "msg list" where
  "menu =
     [Text ''====== EBOOKSTORE MENU ======'', Text ''1. Enter book'', Text ''2. Update book'',
      Text ''3. Delete book'', Text ''4. Search books'', Text ''5. View details of all books'',
      Text ''0. Exit'']"

function menu_loop :: "unit io" where
  "menu_loop w0 =
     (case input (print_each menu w0) of
        (Inl e, w1) \<Rightarrow> (Inl e, w1)
      | (Inr choice, w1) \<Rightarrow>
          if choice = ''1'' then
            (case enter_book w1 of (Inl e, w2) \<Rightarrow> (Inl e, w2) | (Inr u, w2) \<Rightarrow> menu_loop w2)
          else if choice = ''2'' then
            (case update_book w1 of (Inl e, w2) \<Rightarrow> (Inl e, w2) | (Inr u, w2) \<Rightarrow> menu_loop w2)
          else if choice = ''3'' then
            (case delete_book w1 of (Inl e, w2) \<Rightarrow> (Inl e, w2) | (Inr u, w2) \<Rightarrow> menu_loop w2)
          else if choice = ''4'' then
            (case search_books w1 of (Inl e, w2) \<Rightarrow> (Inl e, w2) | (Inr u, w2) \<Rightarrow> menu_loop w2)
          else if choice = ''5'' then
            (case view_all_books w1 of (Inl e, w2) \<Rightarrow> (Inl e, w2) | (Inr u, w2) \<Rightarrow> menu_loop w2)
          else if choice = ''0'' then (Inr (), print Goodbye w1)
          else menu_loop (print InvalidSelection w1))"
  by pat_completeness auto
termination
proof -
  have pe: "stdin (print_each ms v) = stdin v" for ms v
    unfolding print_each_def by (induction ms arbitrary: v) (simp_all add: print_def)
  have inp: "length (stdin v') < length (stdin v)" if "input v = (Inr s, v')" for v v' s
    using that by (auto simp: input_def split: list.splits)
  have inp_le: "length (stdin (snd (input v))) \<le> length (stdin v)" for v
    by (auto simp: input_def split: list.splits)
  have int_le: "length (stdin (snd (int_input v))) \<le> length (stdin v)" for v
    by (auto simp: int_input_def seq_def input_def split: list.splits option.splits)
  have enter: "length (stdin (snd (enter_book v))) \<le> length (stdin v)" for v
    by (auto simp: enter_book_def enter_book_try_def seq_def input_def int_input_def print_def
          execute_def with_connection_def Let_def
          split: list.splits option.splits sum.splits prod.splits)
  have delete: "length (stdin (snd (delete_book v))) \<le> length (stdin v)" for v
    by (auto simp: delete_book_def delete_book_try_def seq_def input_def int_input_def print_def
          execute_def with_connection_def
          split: list.splits option.splits sum.splits prod.splits)
  have search: "length (stdin (snd (search_books v))) \<le> length (stdin v)" for v
    by (auto simp: search_books_def seq_def input_def print_def pe
          query_def with_connection_def Let_def
          split: list.splits option.splits sum.splits prod.splits)
  have view: "length (stdin (snd (view_all_books v))) \<le> length (stdin v)" for v
    by (auto simp: view_all_books_def seq_def print_def pe query_def with_connection_def
          split: list.splits option.splits sum.splits prod.splits)
  have details: "length (stdin (snd (update_author_details k v))) \<le> length (stdin v)" for k v
    by (auto simp: update_author_details_def seq_def input_def print_def execute_def query_def
          Let_def split: list.splits option.splits sum.splits prod.splits)
  have block: "length (stdin (snd (update_book_block k c v))) \<le> length (stdin v)" for k c v
    using details [of k v]
    by (auto simp: update_book_block_def seq_def input_def int_input_def print_def execute_def
          split: list.splits option.splits sum.splits prod.splits)
  have conn: "stdin (snd (with_connection body v)) = stdin (snd (body v))" for body :: "unit io" and v
    by (simp add: with_connection_def split: prod.splits sum.splits)
  have update: "length (stdin (snd (update_book v))) \<le> length (stdin v)" for v
  proof -
    have "length (stdin (snd (update_book_try v))) \<le> length (stdin v)"
    proof (cases "int_input v")
      case (Pair r v1)
      note first = this
      show ?thesis
      proof (cases r)
        case (Inl e)
        then show ?thesis using first int_le [of v] by (simp add: update_book_try_def seq_def)
      next
        case (Inr k)
        show ?thesis
        proof (cases "input (print_each update_options v1)")
          case (Pair r2 v2)
          note second = this
          have le2: "length (stdin v2) \<le> length (stdin v)"
            using inp_le [of "print_each update_options v1"] int_le [of v] first second
            by (simp add: pe)
          show ?thesis
          proof (cases r2)
            case (Inl e)
            then show ?thesis using first Inr second le2
              by (simp add: update_book_try_def seq_def)
          next
            case (Inr c)
            then show ?thesis
              using first \<open>r = Inr k\<close> second le2 block [of k c v2]
              by (simp add: update_book_try_def seq_def conn)
          qed
        qed
      qed
    qed
    then show ?thesis
      by (auto simp: update_book_def print_def split: prod.splits sum.splits)
  qed
  have step: "length (stdin v2) < length (stdin v0)"
    if "(Inr c, v1) = input (print_each menu v0)" "length (stdin v2) \<le> length (stdin v1)"
    for c v0 v1 v2
    using inp [OF that(1) [symmetric]] that(2) by (simp add: pe)
  have after_enter: "length (stdin v2) \<le> length (stdin v1)"
    if "(r, v2) = enter_book v1" for r v1 v2
    using enter [of v1] by (simp add: that [symmetric])
  have after_update: "length (stdin v2) \<le> length (stdin v1)"
    if "(r, v2) = update_book v1" for r v1 v2
    using update [of v1] by (simp add: that [symmetric])
  have after_delete: "length (stdin v2) \<le> length (stdin v1)"
    if "(r, v2) = delete_book v1" for r v1 v2
    using delete [of v1] by (simp add: that [symmetric])
  have after_search: "length (stdin v2) \<le> length (stdin v1)"
    if "(r, v2) = search_books v1" for r v1 v2
    using search [of v1] by (simp add: that [symmetric])
  have after_view: "length (stdin v2) \<le> length (stdin v1)"
    if "(r, v2) = view_all_books v1" for r v1 v2
    using view [of v1] by (simp add: that [symmetric])
  show ?thesis
    apply (relation "measure (\<lambda>w. length (stdin w))")
          apply simp
         apply (simp, rule step, assumption, rule after_enter, assumption)
        apply (simp, rule step, assumption, rule after_update, assumption)
       apply (simp, rule step, assumption, rule after_delete, assumption)
      apply (simp, rule step, assumption, rule after_search, assumption)
     apply (simp, rule step, assumption, rule after_view, assumption)
    apply (simp, rule step, assumption, simp add: print_def)
    done
qed

declare menu_loop.simps [simp del]

section \<open>Start-up and states of the store\<close>

text \<open>\<^verbatim>\<open>main\<close> begins with \<^verbatim>\<open>create_tables()\<close> followed by \<^verbatim>\<open>populate_tables()\<close>.\<close>

definition initialise :: "unit io" where
  "initialise w = seq (create_tables w) (\<lambda>_ w'. populate_tables w')"

definition main :: "unit io" where
  "main w = seq (initialise w) (\<lambda>_ w'. menu_loop w')"

text \<open>Running a call \<open>n\<close> times in succession, stopping at the first exception.\<close>

primrec repeat_io :: "nat \<Rightarrow> unit io \<Rightarrow> unit io" where
  "repeat_io 0 f w = (Inr (), w)"
| "repeat_io (Suc n) f w = seq (f w) (\<lambda>_ w'. repeat_io n f w')"

text \<open>A table that is missing or empty holds no row.\<close>

definition no_rows :: "'r list option \<Rightarrow> bool" where
  "no_rows tbl = (case tbl of None \<Rightarrow> True | Some rows \<Rightarrow> rows = [])"

text \<open>The rows of a table whose title matches the pattern that \<^verbatim>\<open>search_books\<close> builds.\<close>

definition matching_books :: "string \<Rightarrow> book list \<Rightarrow> book list" where
  "matching_books keyword rows =
     filter (\<lambda>b. like_match (c_str (''%'' @ keyword @ ''%'')) (c_str (b_title b))) rows"

text \<open>What \<^verbatim>\<open>view_all_books\<close> prints for one book: a block for each author whose id is its \<^verbatim>\<open>authorID\<close>.\<close>

definition book_details :: "author list \<Rightarrow> book \<Rightarrow> msg list" where
  "book_details arows b =
     map (\<lambda>a. BookDetail (b_title b) (a_name a) (a_country a))
         (filter (\<lambda>a. b_authorID b = a_id a) arows)"

text \<open>The store right after the first start-up, and a console session on a store.\<close>

definition seeded :: database where
  "seeded = \<lparr>author_tbl = Some authors, book_tbl = Some books\<rparr>"

definition session :: "string list \<Rightarrow> database \<Rightarrow> world" where
  "session lines d = \<lparr>stdin = lines, stdout = [], db = d\<rparr>"

text \<open>
  What the engine guarantees of every store the program can reach: both tables exist,
  the ids of a table are pairwise different (PRIMARY KEY), and every stored integer is a
  signed 64-bit integer.
\<close>

definition wf_db :: "database \<Rightarrow> bool" where
  "wf_db d =
     (case author_tbl d of None \<Rightarrow> False
      | Some arows \<Rightarrow>
         (case book_tbl d of None \<Rightarrow> False
          | Some brows \<Rightarrow>
              distinct (map a_id arows) \<and> list_all (\<lambda>a. sqlite_int (a_id a)) arows \<and>
              distinct (map b_id brows) \<and>
              list_all (\<lambda>b. sqlite_int (b_id b) \<and> sqlite_int (b_authorID b) \<and> sqlite_int (b_qty b)) brows))"

text \<open>The rows of \<^verbatim>\<open>book\<close> are in the order in which the engine keeps them: ascending by id.\<close>

definition rowid_order :: "database \<Rightarrow> bool" where
  "rowid_order d = (case book_tbl d of None \<Rightarrow> True | Some rows \<Rightarrow> sorted (map b_id rows))"

section \<open>Basic facts\<close>

lemmas io_defs =
  seq_def input_def int_input_def print_def execute_def query_def with_connection_def

lemma print_each_stdout: "print_each ms w = w\<lparr>stdout := stdout w @ ms\<rparr>"
  unfolding print_each_def
  by (induction ms arbitrary: w) (simp_all add: print_def)

lemma sqlite_int_seed:
  "sqlite_int 1290" "sqlite_int 8937" "sqlite_int 2356" "sqlite_int 6380" "sqlite_int 5620"
  "sqlite_int 3001" "sqlite_int 3002" "sqlite_int 3003" "sqlite_int 3004" "sqlite_int 3005"
  "sqlite_int 30" "sqlite_int 40" "sqlite_int 25" "sqlite_int 37" "sqlite_int 12"
  by (simp_all add: sqlite_int_def)

subsection \<open>Start-up\<close>

lemma insert_authors_empty:
  "author_tbl d = Some [] \<Longrightarrow>
   executemany insert_author authors d = Inr (d\<lparr>author_tbl := Some authors\<rparr>)"
  by (simp add: authors_def insert_author_def sqlite_int_seed)

lemma insert_books_empty:
  "book_tbl d = Some [] \<Longrightarrow>
   executemany insert_book books d = Inr (d\<lparr>book_tbl := Some books\<rparr>)"
  by (simp add: books_def insert_book_def sqlite_int_seed)

lemma create_tables_eq:
  "create_tables w =
     (Inr (), w\<lparr>db := \<lparr>author_tbl = Some (case author_tbl (db w) of None \<Rightarrow> [] | Some rows \<Rightarrow> rows),
                        book_tbl = Some (case book_tbl (db w) of None \<Rightarrow> [] | Some rows \<Rightarrow> rows)\<rparr>\<rparr>)"
  by (simp add: create_tables_def io_defs create_table_author_def create_table_book_def
           split: option.splits)

lemma populate_tables_eq:
  "author_tbl (db w) = Some arows \<Longrightarrow> book_tbl (db w) = Some brows \<Longrightarrow>
   populate_tables w =
     (Inr (), w\<lparr>db := \<lparr>author_tbl = Some (if arows = [] then authors else arows),
                        book_tbl = Some (if brows = [] then books else brows)\<rparr>\<rparr>)"
  by (simp add: populate_tables_def io_defs count_author_def count_book_def
                insert_authors_empty insert_books_empty)

lemma initialise_eq:
  "initialise w =
     (Inr (), w\<lparr>db := \<lparr>author_tbl = (if no_rows (author_tbl (db w)) then Some authors
                                      else author_tbl (db w)),
                        book_tbl = (if no_rows (book_tbl (db w)) then Some books
                                    else book_tbl (db w))\<rparr>\<rparr>)"
  by (simp add: initialise_def create_tables_eq populate_tables_eq seq_def no_rows_def
           split: option.splits list.splits)

lemma authors_not_empty: "\<not> no_rows (Some authors)"
  by (simp add: no_rows_def authors_def)

lemma books_not_empty: "\<not> no_rows (Some books)"
  by (simp add: no_rows_def books_def)

lemma initialise_seeded:
  assumes "db w = seeded"
  shows "initialise w = (Inr (), w)"
proof -
  have "initialise w = (Inr (), w\<lparr>db := db w\<rparr>)"
    unfolding initialise_eq using assms
    by (simp add: seeded_def authors_not_empty books_not_empty)
  then show ?thesis by simp
qed

lemma repeat_initialise_seeded:
  "db w = seeded \<Longrightarrow> repeat_io n initialise w = (Inr (), w)"
  by (induction n) (simp_all add: initialise_seeded seq_def)

lemma repeat_initialise:
  assumes "no_rows (author_tbl (db w))" and "no_rows (book_tbl (db w))"
  shows "repeat_io (Suc n) initialise w = (Inr (), w\<lparr>db := seeded\<rparr>)"
proof -
  have "initialise w = (Inr (), w\<lparr>db := seeded\<rparr>)"
    using assms by (simp add: initialise_eq seeded_def)
  then show ?thesis
    by (simp add: seq_def repeat_initialise_seeded)
qed

subsection \<open>The LIKE operator\<close>

lemma like_percent:
  "like_match (CHR ''%'' # ps) t \<longleftrightarrow> (\<exists>pre suf. t = pre @ suf \<and> like_match ps suf)"
proof (induction t)
  case Nil
  then show ?case by simp
next
  case (Cons c cs)
  have "like_match (CHR ''%'' # ps) (c # cs) \<longleftrightarrow>
        like_match ps (c # cs) \<or> (\<exists>pre suf. cs = pre @ suf \<and> like_match ps suf)"
    using Cons.IH by simp
  also have "\<dots> \<longleftrightarrow> (\<exists>pre suf. c # cs = pre @ suf \<and> like_match ps suf)"
    by (auto simp: Cons_eq_append_conv)
  finally show ?case .
qed

lemma like_any: "like_match ''%'' t"
  by (induction t) simp_all





subsection \<open>search_books\<close>

lemma utf8_length_pattern: "utf8_length (CHR ''%'' # kw @ ''%'') = utf8_length kw + 2"
  by (simp add: utf8_length_def)

lemma utf8_length_replicate_ascii:
  "(of_char c :: nat) < 128 \<Longrightarrow> utf8_length (replicate n c) = n"
  by (induction n) (simp_all add: utf8_length_def)

lemma where_title_like_short:
  "utf8_length pat \<le> 50000 \<Longrightarrow>
   where_title_like pat rows =
     Inr (filter (\<lambda>b. like_match (c_str pat) (c_str (b_title b))) rows)"
  by (induction rows) (simp_all add: sql_like_def)

lemma where_title_like_long:
  "50000 < utf8_length pat \<Longrightarrow> rows \<noteq> [] \<Longrightarrow>
   where_title_like pat rows = Inl (OperationalError ''LIKE or GLOB pattern too complex'')"
  by (cases rows) (simp_all add: sql_like_def)

lemma search_books_eq:
  assumes "stdin w = s # rest" and "book_tbl (db w) = Some rows"
    and "utf8_length (strip s) \<le> 49998"
  shows "search_books w =
     (Inr (), w\<lparr>stdin := rest,
                stdout := stdout w @
                  (if matching_books (strip s) rows = [] then [NoBooksFound]
                   else SearchResults # map search_row (matching_books (strip s) rows))\<rparr>)"
  using assms
  by (simp add: search_books_def io_defs select_books_like_def where_title_like_short
                utf8_length_pattern matching_books_def print_each_stdout Let_def)

lemma search_books_raises:
  assumes "stdin w = s # rest" and "book_tbl (db w) = Some rows" and "rows \<noteq> []"
    and "49998 < utf8_length (strip s)"
  shows "search_books w =
     (Inl (OperationalError ''LIKE or GLOB pattern too complex''), w\<lparr>stdin := rest\<rparr>)"
  using assms
  by (simp add: search_books_def io_defs select_books_like_def where_title_like_long
                utf8_length_pattern Let_def)

lemma search_books_eof:
  "stdin w = [] \<Longrightarrow> search_books w = (Inl EOFError, w)"
  by (simp add: search_books_def io_defs)

lemma search_books_db: "db (snd (search_books w)) = db w"
  by (simp add: search_books_def io_defs print_each_stdout Let_def
           split: list.splits sum.splits prod.splits)

subsection \<open>view_all_books and \<^verbatim>\<open>enter_book\<close>\<close>

lemma view_all_books_eq:
  assumes "author_tbl (db w) = Some arows" and "book_tbl (db w) = Some brows"
  shows "view_all_books w =
     (Inr (), w\<lparr>stdout := stdout w @ BookDetails # concat (map (book_details arows) brows)\<rparr>)"
  using assms
  by (simp add: view_all_books_def io_defs select_book_details_def print_each_stdout
                map_concat comp_def book_details_def [abs_def])

lemma view_all_books_db: "db (snd (view_all_books w)) = db w"
  by (simp add: view_all_books_def io_defs print_each_stdout split: sum.splits prod.splits)

lemma enter_book_returns: "fst (enter_book w) = Inr ()"
  by (simp add: enter_book_def split: sum.splits prod.splits)

lemma update_book_returns: "fst (update_book w) = Inr ()"
  by (simp add: update_book_def split: sum.splits prod.splits)

lemma delete_book_returns: "fst (delete_book w) = Inr ()"
  by (simp add: delete_book_def split: sum.splits prod.splits)




subsection \<open>Rows with a key\<close>


lemma filter_no_match:
  "k \<notin> f ` set rows \<Longrightarrow> filter (\<lambda>x. f x \<noteq> k) rows = rows"
  by (induction rows) auto


lemma filter_one_match:
  assumes "distinct (map f (pre @ r # post))"
  shows "filter (\<lambda>x. f x \<noteq> f r) (pre @ r # post) = pre @ post"
proof -
  have "f r \<notin> f ` set pre" and "f r \<notin> f ` set post"
    using assms by auto
  then show ?thesis
    by (simp add: filter_no_match)
qed






subsection \<open>update_book and \<^verbatim>\<open>delete_book\<close>\<close>







lemma delete_book_eq:
  assumes "stdin w = i # rest" and "book_tbl (db w) = Some rows"
    and "py_int i = Some k" and "sqlite_int k"
  shows "delete_book w =
     (Inr (), w\<lparr>stdin := rest, stdout := stdout w @ [BookDeleted k],
                db := (db w)\<lparr>book_tbl := Some (filter (\<lambda>b. b_id b \<noteq> k) rows)\<rparr>\<rparr>)"
  using assms
  by (simp add: delete_book_def delete_book_try_def io_defs delete_book_row_def)

lemma delete_book_overflow:
  assumes "stdin w = i # rest" and "book_tbl (db w) = Some rows"
    and "py_int i = Some k" and "\<not> sqlite_int k"
  shows "delete_book w =
     (Inr (), w\<lparr>stdin := rest, stdout := stdout w @ [ErrorDeletingBook OverflowError]\<rparr>)"
  using assms
  by (simp add: delete_book_def delete_book_try_def io_defs delete_book_row_def)

lemma delete_book_effect:
  "author_tbl (db (snd (delete_book w))) = author_tbl (db w) \<and>
   (db (snd (delete_book w)) = db w \<or>
    (\<exists>rows k. book_tbl (db w) = Some rows \<and>
       book_tbl (db (snd (delete_book w))) = Some (filter (\<lambda>b. b_id b \<noteq> k) rows)))"
  by (auto simp add: delete_book_def delete_book_try_def io_defs delete_book_row_def
           split: option.splits list.splits)

subsection \<open>Well-formed stores\<close>


lemma wf_db_insert_book:
  "wf_db d \<Longrightarrow> insert_book row d = Inr d' \<Longrightarrow> wf_db d'"
  by (auto simp: wf_db_def insert_book_def distinct_insort_key list_all_iff set_insort_key
           split: option.splits if_splits)

lemma wf_db_update_book_qty:
  "wf_db d \<Longrightarrow> update_book_qty n k d = Inr d' \<Longrightarrow> wf_db d'"
  by (auto simp: wf_db_def update_book_qty_def comp_def list_all_iff if_distrib [of b_id] if_distrib [of a_id]
           split: option.splits if_splits cong: if_cong)

lemma wf_db_update_book_title:
  "wf_db d \<Longrightarrow> update_book_title t k d = Inr d' \<Longrightarrow> wf_db d'"
  by (auto simp: wf_db_def update_book_title_def comp_def list_all_iff if_distrib [of b_id] if_distrib [of a_id]
           split: option.splits if_splits cong: if_cong)

lemma wf_db_update_book_authorID:
  "wf_db d \<Longrightarrow> update_book_authorID n k d = Inr d' \<Longrightarrow> wf_db d'"
  by (auto simp: wf_db_def update_book_authorID_def comp_def list_all_iff if_distrib [of b_id] if_distrib [of a_id]
           split: option.splits if_splits cong: if_cong)

lemma wf_db_update_author:
  "wf_db d \<Longrightarrow> update_author n c k d = Inr d' \<Longrightarrow> wf_db d'"
  by (auto simp: wf_db_def update_author_def comp_def list_all_iff if_distrib [of b_id] if_distrib [of a_id]
           split: option.splits if_splits cong: if_cong)

lemma wf_db_delete_book_row:
  "wf_db d \<Longrightarrow> delete_book_row k d = Inr d' \<Longrightarrow> wf_db d'"
  by (auto simp: wf_db_def delete_book_row_def distinct_map_filter list_all_iff
           split: option.splits if_splits)

subsection \<open>The database after an operation\<close>

lemma enter_book_db:
  "db (snd (enter_book w)) = db w \<or>
   (\<exists>row. insert_book row (db w) = Inr (db (snd (enter_book w))))"
  by (auto simp add: enter_book_def enter_book_try_def io_defs Let_def
           split: option.splits list.splits sum.splits)

lemma delete_book_db:
  "db (snd (delete_book w)) = db w \<or>
   (\<exists>k. delete_book_row k (db w) = Inr (db (snd (delete_book w))))"
  by (auto simp add: delete_book_def delete_book_try_def io_defs
           split: option.splits list.splits sum.splits)

lemma update_author_details_db:
  "db (snd (update_author_details k w)) = db w \<or>
   (\<exists>n c i. update_author n c i (db w) = Inr (db (snd (update_author_details k w))))"
  by (auto simp add: update_author_details_def io_defs Let_def
           split: option.splits list.splits sum.splits)

lemma int_input_execute_db:
  "db (snd (seq (seq (int_input w) (\<lambda>x w1. execute (stmt x) w1))
                (\<lambda>_ w2. (Inr (), print m w2)))) = db w \<or>
   (\<exists>x. stmt x (db w) =
      Inr (db (snd (seq (seq (int_input w) (\<lambda>x w1. execute (stmt x) w1))
                        (\<lambda>_ w2. (Inr (), print m w2))))))"
proof (cases "stdin w")
  case Nil
  then show ?thesis by (simp add: io_defs)
next
  case (Cons s ls)
  show ?thesis
  proof (cases "py_int s")
    case None
    then show ?thesis using Cons by (simp add: io_defs)
  next
    case (Some x)
    show ?thesis
    proof (cases "stmt x (db w)")
      case (Inl e)
      then show ?thesis using Cons Some by (simp add: io_defs)
    next
      case (Inr d)
      then have "stmt x (db w) =
        Inr (db (snd (seq (seq (int_input w) (\<lambda>x w1. execute (stmt x) w1))
                          (\<lambda>_ w2. (Inr (), print m w2)))))"
        using Cons Some by (simp add: io_defs)
      then show ?thesis by blast
    qed
  qed
qed

lemma input_execute_db:
  "db (snd (seq (seq (input w) (\<lambda>x w1. execute (stmt x) w1))
                (\<lambda>_ w2. (Inr (), print m w2)))) = db w \<or>
   (\<exists>x. stmt x (db w) =
      Inr (db (snd (seq (seq (input w) (\<lambda>x w1. execute (stmt x) w1))
                        (\<lambda>_ w2. (Inr (), print m w2))))))"
proof (cases "stdin w")
  case Nil
  then show ?thesis by (simp add: io_defs)
next
  case (Cons x ls)
  show ?thesis
  proof (cases "stmt x (db w)")
    case (Inl e)
    then show ?thesis using Cons by (simp add: io_defs)
  next
    case (Inr d)
    then have "stmt x (db w) =
      Inr (db (snd (seq (seq (input w) (\<lambda>x w1. execute (stmt x) w1))
                        (\<lambda>_ w2. (Inr (), print m w2)))))"
      using Cons by (simp add: io_defs)
    then show ?thesis by blast
  qed
qed

lemma update_book_block_db:
  "db (snd (update_book_block k c w)) = db w \<or>
   (\<exists>n. update_book_qty n k (db w) = Inr (db (snd (update_book_block k c w)))) \<or>
   (\<exists>t. update_book_title t k (db w) = Inr (db (snd (update_book_block k c w)))) \<or>
   (\<exists>n. update_book_authorID n k (db w) = Inr (db (snd (update_book_block k c w)))) \<or>
   (\<exists>n c' i. update_author n c' i (db w) = Inr (db (snd (update_book_block k c w))))"
proof -
  consider "c = ''1''" | "c = ''2''" | "c = ''3''" | "c = ''4''"
    | "c \<noteq> ''1''" "c \<noteq> ''2''" "c \<noteq> ''3''" "c \<noteq> ''4''"
    by blast
  then show ?thesis
  proof cases
    case 1
    then have eq: "update_book_block k c w =
        seq (seq (int_input w) (\<lambda>x w1. execute ((\<lambda>n. update_book_qty n k) x) w1))
            (\<lambda>_ w2. (Inr (), print UpdatedSuccessfully w2))"
      by (simp add: update_book_block_def)
    show ?thesis
      unfolding eq
      using int_input_execute_db [of w "\<lambda>n. update_book_qty n k" UpdatedSuccessfully]
      by blast
  next
    case 2
    then have eq: "update_book_block k c w =
        seq (seq (input w) (\<lambda>x w1. execute ((\<lambda>t. update_book_title t k) x) w1))
            (\<lambda>_ w2. (Inr (), print UpdatedSuccessfully w2))"
      by (simp add: update_book_block_def)
    show ?thesis
      unfolding eq
      using input_execute_db [of w "\<lambda>t. update_book_title t k" UpdatedSuccessfully]
      by blast
  next
    case 3
    then have eq: "update_book_block k c w =
        seq (seq (int_input w) (\<lambda>x w1. execute ((\<lambda>n. update_book_authorID n k) x) w1))
            (\<lambda>_ w2. (Inr (), print UpdatedSuccessfully w2))"
      by (simp add: update_book_block_def)
    show ?thesis
      unfolding eq
      using int_input_execute_db [of w "\<lambda>n. update_book_authorID n k" UpdatedSuccessfully]
      by blast
  next
    case 4
    have "update_book_block k c w =
          seq (update_author_details k w) (\<lambda>_ w2. (Inr (), print UpdatedSuccessfully w2))"
      using 4 by (simp add: update_book_block_def)
    then have "db (snd (update_book_block k c w)) = db (snd (update_author_details k w))"
      by (simp add: seq_def print_def split: prod.splits sum.splits)
    then show ?thesis
      using update_author_details_db [of k w] by auto
  next
    case 5
    then show ?thesis
      by (simp add: update_book_block_def io_defs)
  qed
qed

lemma with_connection_db:
  "db (snd (with_connection body w)) = db w \<or>
   db (snd (with_connection body w)) = db (snd (body w))"
  by (simp add: with_connection_def split: prod.splits sum.splits)

lemma update_book_db:
  "db (snd (update_book w)) = db w \<or>
   (\<exists>n k. update_book_qty n k (db w) = Inr (db (snd (update_book w)))) \<or>
   (\<exists>t k. update_book_title t k (db w) = Inr (db (snd (update_book w)))) \<or>
   (\<exists>n k. update_book_authorID n k (db w) = Inr (db (snd (update_book w)))) \<or>
   (\<exists>n c i. update_author n c i (db w) = Inr (db (snd (update_book w))))"
proof (cases "stdin w")
  case Nil
  then show ?thesis
    by (simp add: update_book_def update_book_try_def io_defs)
next
  case (Cons i ls)
  show ?thesis
  proof (cases "py_int i")
    case None
    then show ?thesis using Cons
      by (simp add: update_book_def update_book_try_def io_defs)
  next
    case (Some k)
    show ?thesis
    proof (cases ls)
      case Nil
      then show ?thesis using Cons Some
        by (simp add: update_book_def update_book_try_def io_defs print_each_stdout)
    next
      case (Cons c rest)
      define v where "v = w\<lparr>stdout := stdout w @ update_options, stdin := rest\<rparr>"
      have v: "db v = db w" by (simp add: v_def)
      have "update_book_try w = with_connection (update_book_block k c) v"
        using \<open>stdin w = i # ls\<close> Some Cons
        by (simp add: update_book_try_def io_defs print_each_stdout v_def)
      then have "db (snd (update_book w)) = db (snd (with_connection (update_book_block k c) v))"
        by (simp add: update_book_def print_def split: prod.splits sum.splits)
      then show ?thesis
        using with_connection_db [of "update_book_block k c" v] update_book_block_db [of k c v] v
        by metis
    qed
  qed
qed

lemma wf_db_preserved:
  assumes "wf_db (db w)"
  shows "wf_db (db (snd (enter_book w)))" and "wf_db (db (snd (update_book w)))"
    and "wf_db (db (snd (delete_book w)))" and "wf_db (db (snd (search_books w)))"
    and "wf_db (db (snd (view_all_books w)))"
  using assms enter_book_db [of w] delete_book_db [of w] update_book_db [of w]
  by (auto simp: search_books_db view_all_books_db
           dest: wf_db_insert_book wf_db_delete_book_row wf_db_update_book_qty
                 wf_db_update_book_title wf_db_update_book_authorID wf_db_update_author)

subsection \<open>What \<^verbatim>\<open>view_all_books\<close> prints for a book\<close>

lemma book_details_orphan:
  "b_authorID b \<notin> a_id ` set arows \<Longrightarrow> book_details arows b = []"
  by (auto simp: book_details_def filter_empty_conv)


lemma concat_details_filter:
  "concat (map (book_details arows) (filter (\<lambda>b. b_authorID b \<in> a_id ` set arows) brows)) =
   concat (map (book_details arows) brows)"
  by (induction brows) (simp_all add: book_details_orphan)

subsection \<open>Blank keywords and literal keywords\<close>

lemma strip_by_empty: "strip_by P s = [] \<longleftrightarrow> (\<forall>c\<in>set s. P c)"
proof
  assume "strip_by P s = []"
  then have all: "\<forall>c\<in>set (dropWhile P s). P c"
    by (simp add: strip_by_def dropWhile_eq_Nil_conv)
  have "dropWhile P s = []"
  proof (cases "dropWhile P s")
    case Nil
    then show ?thesis .
  next
    case (Cons y ys)
    then have "\<not> P y" using hd_dropWhile [of P s] by simp
    moreover have "P y" using all Cons by simp
    ultimately show ?thesis by simp
  qed
  then show "\<forall>c\<in>set s. P c"
    by (simp add: dropWhile_eq_Nil_conv)
next
  assume "\<forall>c\<in>set s. P c"
  then have "dropWhile P s = []"
    by (simp add: dropWhile_eq_Nil_conv)
  then show "strip_by P s = []"
    unfolding strip_by_def by (simp del: dropWhile_eq_Nil_conv)
qed

lemma strip_blank: "strip s = [] \<longleftrightarrow> (\<forall>c\<in>set s. str_isspace c)"
  by (simp add: strip_def strip_by_empty)

lemma like_everything: "like_match ''%%'' t"
proof -
  have "\<exists>pre suf. t = pre @ suf \<and> like_match ''%'' suf"
    by (intro exI [of _ "[]"] exI [of _ t]) (simp add: like_any)
  then show ?thesis by (simp only: like_percent)
qed

lemma matching_books_blank: "matching_books [] rows = rows"
  by (simp add: matching_books_def c_str_def like_everything)



subsection \<open>Keywords that survive strip\<close>

lemma strip_by_keep:
  assumes "s \<noteq> []" and "\<not> P (hd s)" and "\<not> P (last s)"
  shows "strip_by P s = s"
proof -
  have "dropWhile P s = s"
    using assms(1,2) by (cases s) simp_all
  moreover have "dropWhile P (rev s) = rev s"
    using assms(1,3) by (cases "rev s") (simp_all add: last_rev [symmetric] hd_rev)
  ultimately show ?thesis by (simp add: strip_by_def)
qed

lemma strip_replicate:
  "\<not> str_isspace c \<Longrightarrow> strip (replicate n c) = replicate n c"
proof (cases n)
  case 0
  then show ?thesis by (simp add: strip_def strip_by_def)
next
  case (Suc m)
  assume "\<not> str_isspace c"
  then have "strip_by str_isspace (replicate n c) = replicate n c"
    using Suc by (intro strip_by_keep) (simp_all del: replicate_Suc)
  then show ?thesis by (simp add: strip_def)
qed

lemma seeded_tables: "author_tbl seeded = Some authors" "book_tbl seeded = Some books"
  by (simp_all add: seeded_def)

subsection \<open>Concrete inputs\<close>

lemma big_id: "py_int ''9223372036854775808'' = Some 9223372036854775808"
  "\<not> sqlite_int 9223372036854775808"
  "9223372036854775808 \<notin> set (map b_id books)"
  by (code_simp, simp add: sqlite_int_def, simp add: books_def)

subsection \<open>The author of a book\<close>





subsection \<open>Search after a new row\<close>



subsection \<open>The menu loop\<close>

lemma menu_loop_choice:
  assumes "stdin w = c # rest"
  shows "c = ''3'' \<Longrightarrow> menu_loop w =
           (case delete_book (w\<lparr>stdout := stdout w @ menu, stdin := rest\<rparr>) of
              (Inl e, w2) \<Rightarrow> (Inl e, w2) | (Inr u, w2) \<Rightarrow> menu_loop w2)"
    and "c = ''4'' \<Longrightarrow> menu_loop w =
           (case search_books (w\<lparr>stdout := stdout w @ menu, stdin := rest\<rparr>) of
              (Inl e, w2) \<Rightarrow> (Inl e, w2) | (Inr u, w2) \<Rightarrow> menu_loop w2)"
    and "c = ''0'' \<Longrightarrow> menu_loop w =
           (Inr (), w\<lparr>stdout := stdout w @ menu @ [Goodbye], stdin := rest\<rparr>)"
  using assms
  by (subst menu_loop.simps, simp add: io_defs print_each_stdout)+

lemma menu_loop_survives:
  assumes "stdin w = c # rest"
  shows "c = ''1'' \<Longrightarrow> menu_loop w =
           menu_loop (snd (enter_book (w\<lparr>stdout := stdout w @ menu, stdin := rest\<rparr>)))"
    and "c = ''2'' \<Longrightarrow> menu_loop w =
           menu_loop (snd (update_book (w\<lparr>stdout := stdout w @ menu, stdin := rest\<rparr>)))"
    and "c = ''3'' \<Longrightarrow> menu_loop w =
           menu_loop (snd (delete_book (w\<lparr>stdout := stdout w @ menu, stdin := rest\<rparr>)))"
proof -
  have ret: "(case r of (Inl e, w2) \<Rightarrow> (Inl e, w2) | (Inr u, w2) \<Rightarrow> menu_loop w2) =
      menu_loop (snd r)" if "fst r = Inr ()" for r :: "(exn + unit) \<times> world"
    using that by (cases r) (auto split: sum.splits)
  show "c = ''1'' \<Longrightarrow> menu_loop w =
           menu_loop (snd (enter_book (w\<lparr>stdout := stdout w @ menu, stdin := rest\<rparr>)))"
    using assms
    by (subst menu_loop.simps) (simp add: io_defs print_each_stdout ret enter_book_returns)
  show "c = ''2'' \<Longrightarrow> menu_loop w =
           menu_loop (snd (update_book (w\<lparr>stdout := stdout w @ menu, stdin := rest\<rparr>)))"
    using assms
    by (subst menu_loop.simps) (simp add: io_defs print_each_stdout ret update_book_returns)
  show "c = ''3'' \<Longrightarrow> menu_loop w =
           menu_loop (snd (delete_book (w\<lparr>stdout := stdout w @ menu, stdin := rest\<rparr>)))"
    using assms
    by (subst menu_loop.simps) (simp add: io_defs print_each_stdout ret delete_book_returns)
qed

lemma main_search_long:
  "main (session [''4'', replicate 49999 CHR ''a'', ''0''] \<lparr>author_tbl = None, book_tbl = None\<rparr>) =
     (Inl (OperationalError ''LIKE or GLOB pattern too complex''),
      \<lparr>stdin = [''0''], stdout = menu, db = seeded\<rparr>)"
proof -
  have space: "\<not> str_isspace CHR ''a''"
    by (simp add: str_isspace_def)
  have len: "49998 < utf8_length (strip (replicate 49999 CHR ''a''))"
    by (simp add: strip_replicate [OF space] utf8_length_replicate_ascii)
  have rows: "books \<noteq> []" by (simp add: books_def)
  show ?thesis
    unfolding main_def initialise_eq
    using search_books_raises [of "\<lparr>stdin = [replicate 49999 CHR ''a'', ''0''], stdout = menu, db = seeded\<rparr>"
        "replicate 49999 CHR ''a''" "[''0'']" books, OF _ _ rows] len
    by (simp add: session_def seq_def no_rows_def menu_loop_choice(2) seeded_def)
qed

lemma main_delete_overflow:
  "main (session [''3'', ''9223372036854775808'', ''0''] \<lparr>author_tbl = None, book_tbl = None\<rparr>) =
     (Inr (), \<lparr>stdin = [],
        stdout = menu @ [ErrorDeletingBook OverflowError] @ menu @ [Goodbye], db = seeded\<rparr>)"
  unfolding main_def initialise_eq
  using delete_book_overflow [of "\<lparr>stdin = [''9223372036854775808'', ''0''], stdout = menu, db = seeded\<rparr>"
        "''9223372036854775808''" "[''0'']" books 9223372036854775808] big_id
  by (simp add: session_def seq_def no_rows_def menu_loop_choice(1,3) seeded_def)

subsection \<open>A new row in a table kept by id\<close>




lemma rowid_order_seeded: "rowid_order seeded"
  by (simp add: rowid_order_def seeded_def books_def)

lemma rowid_order_insert_book:
  "rowid_order d \<Longrightarrow> insert_book row d = Inr d' \<Longrightarrow> rowid_order d'"
  by (auto simp: rowid_order_def insert_book_def sorted_insort_key split: option.splits if_splits)

lemma rowid_order_update_book_qty:
  "rowid_order d \<Longrightarrow> update_book_qty n k d = Inr d' \<Longrightarrow> rowid_order d'"
  by (auto simp: rowid_order_def update_book_qty_def comp_def if_distrib [of b_id]
           split: option.splits if_splits cong: if_cong)

lemma rowid_order_update_book_title:
  "rowid_order d \<Longrightarrow> update_book_title t k d = Inr d' \<Longrightarrow> rowid_order d'"
  by (auto simp: rowid_order_def update_book_title_def comp_def if_distrib [of b_id]
           split: option.splits if_splits cong: if_cong)

lemma rowid_order_update_book_authorID:
  "rowid_order d \<Longrightarrow> update_book_authorID n k d = Inr d' \<Longrightarrow> rowid_order d'"
  by (auto simp: rowid_order_def update_book_authorID_def comp_def if_distrib [of b_id]
           split: option.splits if_splits cong: if_cong)

lemma rowid_order_update_author:
  "rowid_order d \<Longrightarrow> update_author n c k d = Inr d' \<Longrightarrow> rowid_order d'"
  by (auto simp: rowid_order_def update_author_def split: option.splits if_splits)

lemma rowid_order_delete_book_row:
  "rowid_order d \<Longrightarrow> delete_book_row k d = Inr d' \<Longrightarrow> rowid_order d'"
  by (auto simp: rowid_order_def delete_book_row_def sorted_map sorted_wrt_filter
           split: option.splits if_splits)

lemma rowid_order_preserved:
  assumes "rowid_order (db w)"
  shows "rowid_order (db (snd (initialise w)))" and "rowid_order (db (snd (enter_book w)))"
    and "rowid_order (db (snd (update_book w)))" and "rowid_order (db (snd (delete_book w)))"
    and "rowid_order (db (snd (search_books w)))" and "rowid_order (db (snd (view_all_books w)))"
proof -
  show "rowid_order (db (snd (initialise w)))"
    using assms
    by (auto simp: initialise_eq rowid_order_def no_rows_def books_def split: option.splits)
  show "rowid_order (db (snd (enter_book w)))"
    using assms enter_book_db [of w] by (auto dest: rowid_order_insert_book)
  show "rowid_order (db (snd (update_book w)))"
    using assms update_book_db [of w]
    by (auto dest: rowid_order_update_book_qty rowid_order_update_book_title
          rowid_order_update_book_authorID rowid_order_update_author)
  show "rowid_order (db (snd (delete_book w)))"
    using assms delete_book_db [of w] by (auto dest: rowid_order_delete_book_row)
  show "rowid_order (db (snd (search_books w)))"
    using assms by (simp add: search_books_db)
  show "rowid_order (db (snd (view_all_books w)))"
    using assms by (simp add: view_all_books_db)
qed



section \<open>The claims\<close>

text \<open>
  C1. Storage initialisation is idempotent. Running \<^verbatim>\<open>create_tables\<close> followed by
  \<^verbatim>\<open>populate_tables\<close> any number of times in succession, one time at least, on a store
  whose tables are missing or empty raises nothing and leaves exactly the five seed
  authors (ids 1290, 8937, 2356, 6380, 5620) and the five seed books (ids 3001 to 3005).
  On any store, a table receives the seed rows only when it holds no row; a table that
  holds a row (a seed row or one inserted by hand) is left exactly as it is; the console
  is not touched; and a second initialisation changes nothing.
\<close>

theorem initialisation_idempotent:
  "(no_rows (author_tbl (db w)) \<and> no_rows (book_tbl (db w)) \<longrightarrow>
      repeat_io (Suc n) initialise w = (Inr (), w\<lparr>db := seeded\<rparr>)) \<and>
   seeded = \<lparr>author_tbl = Some authors, book_tbl = Some books\<rparr> \<and>
   map a_id authors = [1290, 8937, 2356, 6380, 5620] \<and>
   map b_id books = [3001, 3002, 3003, 3004, 3005] \<and>
   fst (initialise w) = Inr () \<and>
   stdin (snd (initialise w)) = stdin w \<and> stdout (snd (initialise w)) = stdout w \<and>
   author_tbl (db (snd (initialise w))) =
     (if no_rows (author_tbl (db w)) then Some authors else author_tbl (db w)) \<and>
   book_tbl (db (snd (initialise w))) =
     (if no_rows (book_tbl (db w)) then Some books else book_tbl (db w)) \<and>
   initialise (snd (initialise w)) = (Inr (), snd (initialise w))"
proof -
  have again: "initialise (snd (initialise w)) = (Inr (), snd (initialise w))"
    by (simp add: initialise_eq authors_not_empty books_not_empty)
  have ids: "map a_id authors = [1290, 8937, 2356, 6380, 5620]"
    "map b_id books = [3001, 3002, 3003, 3004, 3005]"
    by (simp_all add: authors_def books_def)
  have rep: "no_rows (author_tbl (db w)) \<and> no_rows (book_tbl (db w)) \<longrightarrow>
      repeat_io (Suc n) initialise w = (Inr (), w\<lparr>db := seeded\<rparr>)"
    using repeat_initialise by blast
  have one: "initialise w =
     (Inr (), w\<lparr>db := \<lparr>author_tbl = (if no_rows (author_tbl (db w)) then Some authors
                                      else author_tbl (db w)),
                        book_tbl = (if no_rows (book_tbl (db w)) then Some books
                                    else book_tbl (db w))\<rparr>\<rparr>)"
    by (rule initialise_eq)
  show ?thesis
    unfolding one using again [unfolded one] ids rep
    by (simp add: seeded_def del: repeat_io.simps)
qed

text \<open>
  Three runs on a new file give the seed rows; and with a sixth author inserted by hand
  after the first run, a further run keeps the six authors and the five books.
\<close>

theorem initialisation_idempotent_witness:
  "repeat_io 3 initialise (session [] \<lparr>author_tbl = None, book_tbl = None\<rparr>) =
     (Inr (), session [] seeded) \<and>
   initialise (session []
       \<lparr>author_tbl = Some (authors @ [\<lparr>a_id = 7777, a_name = ''Jane Austen'', a_country = ''England''\<rparr>]),
        book_tbl = Some books\<rparr>) =
     (Inr (), session []
       \<lparr>author_tbl = Some (authors @ [\<lparr>a_id = 7777, a_name = ''Jane Austen'', a_country = ''England''\<rparr>]),
        book_tbl = Some books\<rparr>)"
proof -
  let ?fresh = "session [] \<lparr>author_tbl = None, book_tbl = None\<rparr>"
  let ?six = "session []
       \<lparr>author_tbl = Some (authors @ [\<lparr>a_id = 7777, a_name = ''Jane Austen'', a_country = ''England''\<rparr>]),
        book_tbl = Some books\<rparr>"
  have "repeat_io 3 initialise ?fresh = (Inr (), session [] seeded)"
    using initialisation_idempotent [of ?fresh 2]
    by (simp add: session_def no_rows_def numeral_3_eq_3)
  moreover have "initialise ?six = (Inr (), ?six)"
    using initialisation_idempotent [of ?six 0] books_not_empty
    by (simp add: session_def no_rows_def prod_eq_iff)
  ultimately show ?thesis by simp
qed




text \<open>
  C3. The claim that every operation catches every exception fails for the two operations
  without a \<^verbatim>\<open>try\<close> statement. \<^verbatim>\<open>search_books\<close> on the seed data with a keyword of 49999
  letters builds a pattern of 50001 bytes; the engine refuses it and the
  \<^verbatim>\<open>OperationalError\<close> leaves \<^verbatim>\<open>search_books\<close>. At the end of the input its \<^verbatim>\<open>input\<close> call
  raises \<^verbatim>\<open>EOFError\<close>, which leaves it as well; and \<^verbatim>\<open>view_all_books\<close> on a file without
  tables lets the \<^verbatim>\<open>OperationalError\<close> of its query pass. The three operations with a
  \<^verbatim>\<open>try\<close> statement return normally in the same situations. In \<^verbatim>\<open>main\<close>, on a new
  file, choice 4 with the long keyword ends the program with the exception, the pending
  choice 0 unread; choice 3 with an id that cannot be bound prints the error and the loop
  goes on to the exit.
\<close>

theorem search_books_raises_to_caller:
  "search_books (session [replicate 49999 CHR ''a''] seeded) =
     (Inl (OperationalError ''LIKE or GLOB pattern too complex''), session [] seeded) \<and>
   search_books (session [] seeded) = (Inl EOFError, session [] seeded) \<and>
   view_all_books (session [] \<lparr>author_tbl = None, book_tbl = None\<rparr>) =
     (Inl (OperationalError ''no such table: book''),
      session [] \<lparr>author_tbl = None, book_tbl = None\<rparr>) \<and>
   fst (enter_book (session [] seeded)) = Inr () \<and>
   fst (update_book (session [] seeded)) = Inr () \<and>
   fst (delete_book (session [] seeded)) = Inr () \<and>
   fst (delete_book (session [''3001''] \<lparr>author_tbl = None, book_tbl = None\<rparr>)) = Inr () \<and>
   main (session [''4'', replicate 49999 CHR ''a'', ''0''] \<lparr>author_tbl = None, book_tbl = None\<rparr>) =
     (Inl (OperationalError ''LIKE or GLOB pattern too complex''),
      \<lparr>stdin = [''0''], stdout = menu, db = seeded\<rparr>) \<and>
   main (session [''3'', ''9223372036854775808'', ''0''] \<lparr>author_tbl = None, book_tbl = None\<rparr>) =
     (Inr (), \<lparr>stdin = [],
        stdout = menu @ [ErrorDeletingBook OverflowError] @ menu @ [Goodbye], db = seeded\<rparr>)"
proof -
  have space: "\<not> str_isspace CHR ''a''"
    by (simp add: str_isspace_def)
  have len: "49998 < utf8_length (strip (replicate 49999 CHR ''a''))"
    by (simp add: strip_replicate [OF space] utf8_length_replicate_ascii)
  have "books \<noteq> []" by (simp add: books_def)
  then have long: "search_books (session [replicate 49999 CHR ''a''] seeded) =
     (Inl (OperationalError ''LIKE or GLOB pattern too complex''), session [] seeded)"
    using search_books_raises [of "session [replicate 49999 CHR ''a''] seeded"
        "replicate 49999 CHR ''a''" "[]" books] len
    by (simp add: session_def seeded_tables)
  have eof: "search_books (session [] seeded) = (Inl EOFError, session [] seeded)"
    by (simp add: search_books_eof session_def)
  have view: "view_all_books (session [] \<lparr>author_tbl = None, book_tbl = None\<rparr>) =
     (Inl (OperationalError ''no such table: book''),
      session [] \<lparr>author_tbl = None, book_tbl = None\<rparr>)"
    by (simp add: view_all_books_def io_defs select_book_details_def session_def no_such_table_def)
  show ?thesis
    using long eof view main_search_long main_delete_overflow
    by (simp add: enter_book_returns update_book_returns delete_book_returns)
qed









text \<open>
  C7. \<^verbatim>\<open>view_all_books\<close> prints its heading and then, book by book, the title of the book
  with the name and the country of each author whose id is the book's \<^verbatim>\<open>authorID\<close>.
  So every book whose \<^verbatim>\<open>authorID\<close> is the id of an author is printed with that
  author's name and country; a book whose \<^verbatim>\<open>authorID\<close> matches no author contributes
  nothing, and the output is the one of the table without such books; the operation
  raises nothing and changes neither the database nor the pending input.
\<close>

theorem view_all_books_inner_join:
  assumes "author_tbl (db w) = Some arows" and "book_tbl (db w) = Some brows"
  shows "view_all_books w =
           (Inr (), w\<lparr>stdout := stdout w @ BookDetails # concat (map (book_details arows) brows)\<rparr>) \<and>
         (\<forall>b\<in>set brows. \<forall>a\<in>set arows. b_authorID b = a_id a \<longrightarrow>
            BookDetail (b_title b) (a_name a) (a_country a) \<in> set (book_details arows b) \<and>
            BookDetail (b_title b) (a_name a) (a_country a)
              \<in> set (stdout (snd (view_all_books w)))) \<and>
         (\<forall>b\<in>set brows. b_authorID b \<notin> a_id ` set arows \<longrightarrow> book_details arows b = []) \<and>
         concat (map (book_details arows) brows) =
           concat (map (book_details arows)
                    (filter (\<lambda>b. b_authorID b \<in> a_id ` set arows) brows)) \<and>
         db (snd (view_all_books w)) = db w \<and> stdin (snd (view_all_books w)) = stdin w"
proof -
  have eq: "view_all_books w =
      (Inr (), w\<lparr>stdout := stdout w @ BookDetails # concat (map (book_details arows) brows)\<rparr>)"
    using assms by (rule view_all_books_eq)
  have mem: "BookDetail (b_title b) (a_name a) (a_country a) \<in> set (book_details arows b)"
    if "a \<in> set arows" "b_authorID b = a_id a" for a b
    using that by (auto simp: book_details_def)
  have "BookDetail (b_title b) (a_name a) (a_country a) \<in> set (stdout (snd (view_all_books w)))"
    if "b \<in> set brows" "a \<in> set arows" "b_authorID b = a_id a" for a b
    using mem [OF that(2,3)] that(1) by (auto simp: eq)
  then show ?thesis
    using mem by (simp add: eq book_details_orphan concat_details_filter)
qed

theorem view_all_books_inner_join_witness:
  "view_all_books (session []
      \<lparr>author_tbl = Some [\<lparr>a_id = 1290, a_name = ''Charles Dickens'', a_country = ''England''\<rparr>],
       book_tbl = Some [\<lparr>b_id = 3001, b_title = ''A Tale of Two Cities'', b_authorID = 1290, b_qty = 30\<rparr>,
                        \<lparr>b_id = 4002, b_title = ''Orphan'', b_authorID = 9999, b_qty = 1\<rparr>]\<rparr>) =
   (Inr (), \<lparr>stdin = [],
      stdout = [BookDetails, BookDetail ''A Tale of Two Cities'' ''Charles Dickens'' ''England''],
      db = \<lparr>author_tbl = Some [\<lparr>a_id = 1290, a_name = ''Charles Dickens'', a_country = ''England''\<rparr>],
       book_tbl = Some [\<lparr>b_id = 3001, b_title = ''A Tale of Two Cities'', b_authorID = 1290, b_qty = 30\<rparr>,
                        \<lparr>b_id = 4002, b_title = ''Orphan'', b_authorID = 9999, b_qty = 1\<rparr>]\<rparr>\<rparr>)"
  using view_all_books_inner_join [of
      "session []
      \<lparr>author_tbl = Some [\<lparr>a_id = 1290, a_name = ''Charles Dickens'', a_country = ''England''\<rparr>],
       book_tbl = Some [\<lparr>b_id = 3001, b_title = ''A Tale of Two Cities'', b_authorID = 1290, b_qty = 30\<rparr>,
                        \<lparr>b_id = 4002, b_title = ''Orphan'', b_authorID = 9999, b_qty = 1\<rparr>]\<rparr>"
      "[\<lparr>a_id = 1290, a_name = ''Charles Dickens'', a_country = ''England''\<rparr>]"
      "[\<lparr>b_id = 3001, b_title = ''A Tale of Two Cities'', b_authorID = 1290, b_qty = 30\<rparr>,
                        \<lparr>b_id = 4002, b_title = ''Orphan'', b_authorID = 9999, b_qty = 1\<rparr>]"]
  by (simp add: session_def book_details_def)




text \<open>
  C9, as the code has it. \<^verbatim>\<open>delete_book\<close> with an id that is an integer literal in the
  signed 64-bit range removes the rows of the book table with that id and reports success:
  when no book has the id the database is unchanged, and when one has it, the ids being
  pairwise different, exactly that row is removed. With an integer literal outside that
  range nothing is removed and an error is printed. On every input the author table is
  left as it was.
\<close>

theorem delete_book_row_only:
  assumes "stdin w = i # rest" and "book_tbl (db w) = Some rows" and "py_int i = Some k"
  shows "(sqlite_int k \<longrightarrow>
            delete_book w =
              (Inr (), w\<lparr>stdin := rest, stdout := stdout w @ [BookDeleted k],
                 db := (db w)\<lparr>book_tbl := Some (filter (\<lambda>b. b_id b \<noteq> k) rows)\<rparr>\<rparr>)) \<and>
         (sqlite_int k \<and> k \<notin> b_id ` set rows \<longrightarrow>
            delete_book w = (Inr (), w\<lparr>stdin := rest, stdout := stdout w @ [BookDeleted k]\<rparr>)) \<and>
         (\<forall>pre b post. rows = pre @ b # post \<and> b_id b = k \<and> distinct (map b_id rows) \<longrightarrow>
            filter (\<lambda>x. b_id x \<noteq> k) rows = pre @ post) \<and>
         (\<not> sqlite_int k \<longrightarrow>
            delete_book w =
              (Inr (), w\<lparr>stdin := rest, stdout := stdout w @ [ErrorDeletingBook OverflowError]\<rparr>)) \<and>
         (\<forall>v. author_tbl (db (snd (delete_book v))) = author_tbl (db v))"
proof -
  have gone: "filter (\<lambda>x. b_id x \<noteq> k) rows = pre @ post"
    if "rows = pre @ b # post" "b_id b = k" "distinct (map b_id rows)" for pre b post
    using filter_one_match [of b_id pre b post] that by simp
  have none: "delete_book w = (Inr (), w\<lparr>stdin := rest, stdout := stdout w @ [BookDeleted k]\<rparr>)"
    if "sqlite_int k" "k \<notin> b_id ` set rows"
    using delete_book_eq [OF assms that(1)] that(2) assms(2)
    by (simp add: filter_no_match)
  show ?thesis
    using delete_book_eq [OF assms] delete_book_overflow [OF assms] delete_book_effect gone none
    by blast
qed

text \<open>Deleting book 3002 from the seed data removes that row; deleting 4040 removes nothing.\<close>

theorem delete_book_row_only_witness:
  "delete_book (session [''3002''] seeded) =
     (Inr (), \<lparr>stdin = [], stdout = [BookDeleted 3002],
        db = \<lparr>author_tbl = Some authors, book_tbl = Some (hd books # tl (tl books))\<rparr>\<rparr>) \<and>
   delete_book (session [''4040''] seeded) =
     (Inr (), \<lparr>stdin = [], stdout = [BookDeleted 4040], db = seeded\<rparr>)"
proof -
  have ints: "py_int ''3002'' = Some 3002" "py_int ''4040'' = Some 4040"
    by code_simp+
  have range: "sqlite_int 3002" "sqlite_int 4040"
    by (simp_all add: sqlite_int_def)
  have "delete_book (session [''3002''] seeded) =
     (Inr (), \<lparr>stdin = [], stdout = [BookDeleted 3002],
        db = \<lparr>author_tbl = Some authors, book_tbl = Some (hd books # tl (tl books))\<rparr>\<rparr>)"
    using delete_book_row_only [of "session [''3002''] seeded" "''3002''" "[]" books 3002]
      ints range
    by (simp add: session_def seeded_def books_def)
  moreover have "delete_book (session [''4040''] seeded) =
     (Inr (), \<lparr>stdin = [], stdout = [BookDeleted 4040], db = seeded\<rparr>)"
    using delete_book_row_only [of "session [''4040''] seeded" "''4040''" "[]" books 4040]
      ints range
    by (simp add: session_def seeded_def books_def)
  ultimately show ?thesis by simp
qed

text \<open>
  As stated, C9 fails: the id 9223372036854775808 is an integer literal and the id of no
  book; the database is unchanged, but an error is printed instead of the success message.
\<close>

theorem delete_book_overflow_counterexample:
  "py_int ''9223372036854775808'' = Some 9223372036854775808 \<and>
   9223372036854775808 \<notin> set (map b_id books) \<and>
   delete_book (session [''9223372036854775808''] seeded) =
     (Inr (), \<lparr>stdin = [], stdout = [ErrorDeletingBook OverflowError], db = seeded\<rparr>)"
  using delete_book_overflow
      [of "session [''9223372036854775808''] seeded"
          "''9223372036854775808''" "[]" books 9223372036854775808] big_id
  by (simp add: session_def seeded_def)

text \<open>
  C10. \<^verbatim>\<open>search_books\<close> with a keyword that is empty or consists of white space only
  (so that it is empty after \<^verbatim>\<open>strip\<close>) builds the pattern \<^verbatim>\<open>%%\<close>, which matches every
  title, and prints every row of the book table; the not-found message is printed only
  when the book table holds no row.
\<close>

theorem search_books_blank_keyword:
  assumes "stdin w = s # rest" and "\<forall>c\<in>set s. str_isspace c"
    and "book_tbl (db w) = Some rows"
  shows "''%'' @ strip s @ ''%'' = ''%%'' \<and>
         (\<forall>title. sql_like title ''%%'' = Inr True) \<and>
         search_books w =
           (Inr (), w\<lparr>stdin := rest,
                      stdout := stdout w @
                        (if rows = [] then [NoBooksFound]
                         else SearchResults # map search_row rows)\<rparr>)"
proof -
  have blank: "strip s = []"
    using assms(2) by (simp add: strip_blank)
  have "sql_like title ''%%'' = Inr True" for title
    using like_everything by (simp add: sql_like_def utf8_length_def c_str_def)
  moreover have "search_books w =
           (Inr (), w\<lparr>stdin := rest,
                      stdout := stdout w @
                        (if rows = [] then [NoBooksFound]
                         else SearchResults # map search_row rows)\<rparr>)"
    using search_books_eq [OF assms(1,3)] blank
    by (simp add: matching_books_blank utf8_length_def)
  ultimately show ?thesis using blank by simp
qed

theorem search_books_blank_keyword_witness:
  "search_books (session [''  ''] \<lparr>author_tbl = Some [],
      book_tbl = Some [\<lparr>b_id = 3004, b_title = ''The Lord of the Rings'', b_authorID = 6380, b_qty = 37\<rparr>]\<rparr>) =
   (Inr (), \<lparr>stdin = [], stdout = [SearchResults, SearchRow 3004 ''The Lord of the Rings'' 6380 37],
      db = \<lparr>author_tbl = Some [],
      book_tbl = Some [\<lparr>b_id = 3004, b_title = ''The Lord of the Rings'', b_authorID = 6380, b_qty = 37\<rparr>]\<rparr>\<rparr>) \<and>
   search_books (session [[]] \<lparr>author_tbl = Some [], book_tbl = Some []\<rparr>) =
   (Inr (), \<lparr>stdin = [], stdout = [NoBooksFound], db = \<lparr>author_tbl = Some [], book_tbl = Some []\<rparr>\<rparr>)"
  using search_books_blank_keyword [of
      "session [''  ''] \<lparr>author_tbl = Some [],
         book_tbl = Some [\<lparr>b_id = 3004, b_title = ''The Lord of the Rings'', b_authorID = 6380, b_qty = 37\<rparr>]\<rparr>"
      "''  ''" "[]"
      "[\<lparr>b_id = 3004, b_title = ''The Lord of the Rings'', b_authorID = 6380, b_qty = 37\<rparr>]"]
    search_books_blank_keyword [of
      "session [[]] \<lparr>author_tbl = Some [], book_tbl = Some []\<rparr>" "[]" "[]" "[]"]
  by (simp add: session_def str_isspace_def search_row_def)

end
